theory Spec2Isabelle
  imports Main "HOL-Library.Word" "HOL-Library.Sublist"
begin

section \<open>JavaScript strings\<close>

text \<open>
  A JavaScript string is a sequence of UTF-16 code units; \<open>length\<close> counts code units.
  \<open>js\<close> writes a source literal made of ASCII characters as such a sequence.
\<close>

type_synonym code_unit = "16 word"
type_synonym jsstring = "code_unit list"

definition js :: "string \<Rightarrow> jsstring" where
  "js s = map of_char s"

text \<open>
  \<open>String.prototype.trim\<close> removes the ECMAScript WhiteSpace and LineTerminator code
  points from both ends. All of them lie in the Basic Multilingual Plane, so the test is
  one on single code units.
\<close>

definition isWhiteSpace :: "code_unit \<Rightarrow> bool" where
  "isWhiteSpace c \<longleftrightarrow>
     c = 0x0009 \<or> c = 0x000A \<or> c = 0x000B \<or> c = 0x000C \<or> c = 0x000D \<or> c = 0x0020 \<or>
     c = 0x00A0 \<or> c = 0x1680 \<or> (0x2000 \<le> c \<and> c \<le> 0x200A) \<or> c = 0x2028 \<or>
     c = 0x2029 \<or> c = 0x202F \<or> c = 0x205F \<or> c = 0x3000 \<or> c = 0xFEFF"

definition trim :: "jsstring \<Rightarrow> jsstring" where
  "trim s = rev (dropWhile isWhiteSpace (rev (dropWhile isWhiteSpace s)))"

section \<open>The form data of the quiz creation page\<close>

text \<open>
  \<open>questionTypes\<close> is the array \<open>['boolean', 'input', 'checkbox']\<close>. The field \<open>type\<close> of
  a question holds the string the select of the page puts there: one of these three, or
  the empty string of its first choice, "Select type". The page's TypeScript type
  \<open>QuestionType\<close> names the three; a cast, not a check, gives it to the select's value.
\<close>

definition boolean :: jsstring where
  "boolean = js ''boolean''"

definition input :: jsstring where
  "input = js ''input''"

definition checkbox :: jsstring where
  "checkbox = js ''checkbox''"

definition questionTypes :: "jsstring list" where
  "questionTypes = [boolean, input, checkbox]"

text \<open>
  \<open>CreateQuizForm\<close> is the type the page gives to its form: the type inferred from
  \<open>createQuizSchema\<close>. A field marked \<open>.optional()\<close> may be \<open>undefined\<close>, which is
  \<open>None\<close> here. The field \<open>text\<close> of the source is \<open>text'\<close>.
\<close>

datatype CorrectBoolean = str_true | str_false

record question =
  text' :: jsstring
  type :: jsstring
  options :: "jsstring list option"
  correctBoolean :: "CorrectBoolean option"
  correctInput :: "jsstring option"
  correctCheckbox :: "bool list option"

record CreateQuizForm =
  title :: jsstring
  questions :: "question list"

text \<open>\<open>x ?? []\<close>: an absent array reads as the empty one.\<close>

definition orEmpty :: "'a list option \<Rightarrow> 'a list" where
  "orEmpty x = (case x of None \<Rightarrow> [] | Some xs \<Rightarrow> xs)"

section \<open>Validation: questionSchema and createQuizSchema\<close>

text \<open>
  A Zod issue is a path and a message. A path segment is a property name or an array
  index. A message is one the schema gives (\<open>Message\<close>), or the one Zod words itself for a
  value outside an enum (\<open>Invalid_enum_value\<close>), whose text is the library's.

  The schemas are modelled by the issues they report on a value of the form, in the
  order Zod visits the fields, and by the value they output. A failed \<open>min\<close> check does
  not stop the parse of the object, so \<open>superRefine\<close> runs on a question with such
  issues, on the output of the object schema (whose options are trimmed). A \<open>type\<close>
  outside the enum aborts the parse of the object: its issues are kept, and
  \<open>superRefine\<close> is not run.
\<close>

datatype segment = Key string | Idx nat

datatype message = Message string | Invalid_enum_value

type_synonym issue = "segment list \<times> message"

definition optionsSchema_issues :: "jsstring list \<Rightarrow> issue list" where
  "optionsSchema_issues opts =
     concat (map (\<lambda>(j, opt).
        if length (trim opt) < 1
        then [([Key ''options'', Idx j], Message ''Option cannot be empty'')]
        else []) (enumerate 0 opts))"

definition objectSchema_output :: "question \<Rightarrow> question" where
  "objectSchema_output q = q\<lparr>options := map_option (map trim) (options q)\<rparr>"

definition superRefine :: "question \<Rightarrow> issue list" where
  "superRefine q =
     (if type q = boolean then
        (if correctBoolean q = None
         then [([Key ''correctBoolean''], Message ''Select the correct answer'')] else [])
      else []) @
     (if type q = input then
        (if (case correctInput q of None \<Rightarrow> True
             | Some s \<Rightarrow> length s = 0 \<or> length (trim s) = 0)
         then [([Key ''correctInput''], Message ''Provide the expected answer'')] else [])
      else []) @
     (if type q = checkbox then
        (if (case options q of None \<Rightarrow> True | Some opts \<Rightarrow> length opts = 0)
         then [([Key ''options''],
                Message ''Add at least one option for checkbox questions'')]
         else []) @
        (case correctCheckbox q of
           None \<Rightarrow> [([Key ''correctCheckbox''], Message ''Mark which options are correct'')]
         | Some cs \<Rightarrow>
             if length cs \<noteq> length (orEmpty (options q))
             then [([Key ''correctCheckbox''], Message ''Mark which options are correct'')]
             else if \<not> list_ex (\<lambda>b. b) cs
             then [([Key ''correctCheckbox''], Message ''Select at least one correct option'')]
             else [])
      else [])"

definition questionSchema_issues :: "question \<Rightarrow> issue list" where
  "questionSchema_issues q =
     (if length (text' q) < 1 then [([Key ''text''], Message ''Question text is required'')]
      else []) @
     (if type q \<notin> set questionTypes then [([Key ''type''], Invalid_enum_value)] else []) @
     (case options q of None \<Rightarrow> [] | Some opts \<Rightarrow> optionsSchema_issues opts) @
     (if type q \<in> set questionTypes then superRefine (objectSchema_output q) else [])"

definition atPath :: "segment list \<Rightarrow> issue \<Rightarrow> issue" where
  "atPath p i = (p @ fst i, snd i)"

definition createQuizSchema_issues :: "CreateQuizForm \<Rightarrow> issue list" where
  "createQuizSchema_issues d =
     (if length (title d) < 1 then [([Key ''title''], Message ''Title is required'')] else []) @
     (if length (questions d) < 1
      then [([Key ''questions''], Message ''Add at least one question to the quiz'')] else []) @
     concat (map (\<lambda>(i, q). map (atPath [Key ''questions'', Idx i]) (questionSchema_issues q))
               (enumerate 0 (questions d)))"

definition createQuizSchema_output :: "CreateQuizForm \<Rightarrow> CreateQuizForm" where
  "createQuizSchema_output d = d\<lparr>questions := map objectSchema_output (questions d)\<rparr>"

text \<open>\<open>validate\<close> is the error set the resolver \<open>zodResolver(createQuizSchema)\<close> reports.\<close>

definition validate :: "CreateQuizForm \<Rightarrow> issue list" where
  "validate d = createQuizSchema_issues d"

definition zodResolver :: "CreateQuizForm \<Rightarrow> issue list + CreateQuizForm" where
  "zodResolver d =
     (if createQuizSchema_issues d = [] then Inr (createQuizSchema_output d)
      else Inl (createQuizSchema_issues d))"

section \<open>Submission: onSubmit\<close>

text \<open>
  The three payload variants of \<open>services/api.ts\<close>. The arguments are \<open>text\<close>, \<open>type\<close>,
  \<open>options\<close> (absent from the input variant) and \<open>correctAnswer\<close>; the variants differ in
  the type of \<open>correctAnswer\<close>. \<open>onSubmit\<close> copies \<open>type\<close> from the question.
\<close>

datatype QuizQuestionPayload =
    BooleanQuizQuestionPayload (payload_text: jsstring) (payload_type: jsstring)
      "jsstring list option" bool
  | InputQuizQuestionPayload (payload_text: jsstring) (payload_type: jsstring) jsstring
  | CheckboxQuizQuestionPayload (payload_text: jsstring) (payload_type: jsstring)
      "jsstring list" "jsstring list"

datatype CreateQuizPayload =
  CreateQuizPayload (payload_title: jsstring) (payload_questions: "QuizQuestionPayload list")

text \<open>
  \<open>filterByIndex p xs\<close> is \<open>xs.filter((_, idx) => p(idx))\<close>. \<open>flagAt cs idx\<close> is the
  truthiness of \<open>cs[idx]\<close>: an index past the end reads \<open>undefined\<close>, which is falsy.
\<close>

definition filterByIndex :: "(nat \<Rightarrow> bool) \<Rightarrow> 'a list \<Rightarrow> 'a list" where
  "filterByIndex p xs = map snd (filter (\<lambda>(idx, _). p idx) (enumerate 0 xs))"

definition flagAt :: "bool list \<Rightarrow> nat \<Rightarrow> bool" where
  "flagAt cs idx \<longleftrightarrow> idx < length cs \<and> cs ! idx"

text \<open>
  The record \<open>onSubmit\<close> builds for one question. The last branch is the one the source
  reaches for every \<open>type\<close> that is neither \<open>'boolean'\<close> nor \<open>'input'\<close>.
\<close>

definition questionPayload :: "question \<Rightarrow> QuizQuestionPayload" where
  "questionPayload q =
     (if type q = boolean then
        BooleanQuizQuestionPayload (text' q) (type q) (Some [js ''True'', js ''False''])
          (correctBoolean q = Some str_true)
      else if type q = input then
        InputQuizQuestionPayload (text' q) (type q)
          (case correctInput q of None \<Rightarrow> js '''' | Some s \<Rightarrow> trim s)
      else
        (let opts = map trim (orEmpty (options q));
             cs = orEmpty (correctCheckbox q);
             correctAnswer = filterByIndex (flagAt cs) opts
         in CheckboxQuizQuestionPayload (text' q) (type q) opts correctAnswer))"

text \<open>\<open>onSubmit\<close> returns the payload it hands to \<open>createQuiz\<close>.\<close>

definition onSubmit :: "CreateQuizForm \<Rightarrow> CreateQuizPayload" where
  "onSubmit data = CreateQuizPayload (title data) (map questionPayload (questions data))"

text \<open>
  The form is submitted through \<open>handleSubmit(onSubmit)\<close>: the resolver runs first, and
  \<open>onSubmit\<close> is called, on the data the schema outputs, only when it reports no error.
\<close>

definition handleSubmit :: "CreateQuizForm \<Rightarrow> CreateQuizPayload option" where
  "handleSubmit d =
     (case zodResolver d of Inl errors \<Rightarrow> None | Inr data \<Rightarrow> Some (onSubmit data))"

section \<open>Editing the draft\<close>

text \<open>
  \<open>defaultValues\<close> is the form the page starts with. The handlers below are the page's
  own; \<open>setValue\<close> on \<open>questions.i.field\<close> is an update of that field of question \<open>i\<close>.
  The page renders the controls of question \<open>i\<close> only for \<open>i\<close> below the number of
  questions. For an index past the end \<open>setValue\<close> would create an entry with neither
  \<open>text\<close> nor \<open>type\<close>, which is no value of the form's type: that case is \<open>None\<close>.
\<close>

definition defaultQuestion :: question where
  "defaultQuestion =
     \<lparr>text' = js '''', type = input, options = None, correctBoolean = None,
      correctInput = Some (js ''''), correctCheckbox = None\<rparr>"

definition defaultValues :: CreateQuizForm where
  "defaultValues = \<lparr>title = js '''', questions = [defaultQuestion]\<rparr>"

definition atQuestion ::
  "CreateQuizForm \<Rightarrow> nat \<Rightarrow> (question \<Rightarrow> question) \<Rightarrow> CreateQuizForm option" where
  "atQuestion form questionIndex f =
     (if questionIndex < length (questions form)
      then Some (form\<lparr>questions :=
             (questions form)[questionIndex := f (questions form ! questionIndex)]\<rparr>)
      else None)"

definition addQuestion :: "CreateQuizForm \<Rightarrow> CreateQuizForm" where
  "addQuestion form = form\<lparr>questions := questions form @ [defaultQuestion]\<rparr>"

text \<open>
  The Remove button of question \<open>index\<close> calls \<open>remove(index)\<close> of the field array, and is
  disabled while \<open>fields.length === 1\<close>: a click on it then changes nothing. There is no
  such button for an index past the end.
\<close>

definition removeQuestion :: "CreateQuizForm \<Rightarrow> nat \<Rightarrow> CreateQuizForm option" where
  "removeQuestion form index =
     (if \<not> index < length (questions form) then None
      else if length (questions form) = 1 then Some form
      else Some (form\<lparr>questions :=
             take index (questions form) @ drop (Suc index) (questions form)\<rparr>))"

definition addOption_question :: "question \<Rightarrow> question" where
  "addOption_question q =
     (let currentOptions = orEmpty (options q);
          currentCorrect = orEmpty (correctCheckbox q)
      in q\<lparr>options := Some (currentOptions @ [js '''']),
            correctCheckbox := Some (currentCorrect @ [False])\<rparr>)"

definition addOption :: "CreateQuizForm \<Rightarrow> nat \<Rightarrow> CreateQuizForm option" where
  "addOption form questionIndex = atQuestion form questionIndex addOption_question"

text \<open>\<open>xs.length ? xs : undefined\<close>\<close>

definition orUndefined :: "'a list \<Rightarrow> 'a list option" where
  "orUndefined xs = (if length xs \<noteq> 0 then Some xs else None)"

definition removeOption_question :: "nat \<Rightarrow> question \<Rightarrow> question" where
  "removeOption_question optionIndex q =
     (let currentOptions = orEmpty (options q);
          currentCorrect = orEmpty (correctCheckbox q);
          nextOptions = filterByIndex (\<lambda>idx. idx \<noteq> optionIndex) currentOptions;
          nextCorrect = filterByIndex (\<lambda>idx. idx \<noteq> optionIndex) currentCorrect
      in q\<lparr>options := orUndefined nextOptions, correctCheckbox := orUndefined nextCorrect\<rparr>)"

definition removeOption :: "CreateQuizForm \<Rightarrow> nat \<Rightarrow> nat \<Rightarrow> CreateQuizForm option" where
  "removeOption form questionIndex optionIndex =
     atQuestion form questionIndex (removeOption_question optionIndex)"

text \<open>
  \<open>existingCorrect[idx] ?? false\<close> is \<open>flagAt existingCorrect idx\<close>. For a \<open>newType\<close> that
  is none of the three, no branch of \<open>handleTypeChange\<close> applies and no field is set.
\<close>

definition handleTypeChange_question :: "jsstring \<Rightarrow> question \<Rightarrow> question" where
  "handleTypeChange_question newType q =
     (if newType = boolean then
        q\<lparr>options := None, correctCheckbox := None, correctInput := None,
          correctBoolean := Some str_true\<rparr>
      else if newType = input then
        q\<lparr>options := None, correctCheckbox := None, correctBoolean := None,
          correctInput := Some (js '''')\<rparr>
      else if newType = checkbox then
        (let existingOptions = orEmpty (options q);
             existingCorrect = orEmpty (correctCheckbox q);
             opts = (if length existingOptions > 0 then existingOptions else [js '''']);
             correctFlags = map (\<lambda>idx. flagAt existingCorrect idx) [0..<length opts]
         in q\<lparr>options := Some opts, correctCheckbox := Some correctFlags,
              correctBoolean := None, correctInput := None\<rparr>)
      else q)"

definition handleTypeChange ::
  "CreateQuizForm \<Rightarrow> nat \<Rightarrow> jsstring \<Rightarrow> CreateQuizForm option" where
  "handleTypeChange form questionIndex newType =
     atQuestion form questionIndex (handleTypeChange_question newType)"

text \<open>
  Choosing a type in the select of question \<open>i\<close>: the registered field \<open>type\<close> takes the
  chosen value, then the \<open>onChange\<close> of the registration calls \<open>handleTypeChange\<close>.
\<close>

definition selectType ::
  "CreateQuizForm \<Rightarrow> nat \<Rightarrow> jsstring \<Rightarrow> CreateQuizForm option" where
  "selectType form questionIndex newType =
     (case atQuestion form questionIndex (\<lambda>q. q\<lparr>type := newType\<rparr>) of
        None \<Rightarrow> None
      | Some form' \<Rightarrow> handleTypeChange form' questionIndex newType)"

text \<open>
  What a user can do to the draft. \<open>EditQuestion i f\<close> stands for typing into, or
  ticking, a registered input of question \<open>i\<close>: it changes fields of that question in some
  way \<open>f\<close> and leaves the list of questions as long as it is. Every edit the page offers
  is of this form, so the drafts reached by \<open>performAll\<close> include every draft the page
  can reach.
\<close>

datatype action =
    AddQuestion
  | RemoveQuestion nat
  | SelectType nat jsstring
  | AddOption nat
  | RemoveOption nat nat
  | EditTitle jsstring
  | EditQuestion nat "question \<Rightarrow> question"

fun perform :: "CreateQuizForm \<Rightarrow> action \<Rightarrow> CreateQuizForm option" where
  "perform form AddQuestion = Some (addQuestion form)"
| "perform form (RemoveQuestion index) = removeQuestion form index"
| "perform form (SelectType questionIndex newType) = selectType form questionIndex newType"
| "perform form (AddOption questionIndex) = addOption form questionIndex"
| "perform form (RemoveOption questionIndex optionIndex) =
     removeOption form questionIndex optionIndex"
| "perform form (EditTitle s) = Some (form\<lparr>title := s\<rparr>)"
| "perform form (EditQuestion questionIndex f) = atQuestion form questionIndex f"

fun performAll :: "CreateQuizForm \<Rightarrow> action list \<Rightarrow> CreateQuizForm option" where
  "performAll form [] = Some form"
| "performAll form (a # as) =
     (case perform form a of None \<Rightarrow> None | Some form' \<Rightarrow> performAll form' as)"

fun isOptionCall :: "nat \<Rightarrow> action \<Rightarrow> bool" where
  "isOptionCall questionIndex (AddOption i) \<longleftrightarrow> i = questionIndex"
| "isOptionCall questionIndex (RemoveOption i optionIndex) \<longleftrightarrow> i = questionIndex"
| "isOptionCall questionIndex a \<longleftrightarrow> False"

text \<open>The alignment of the two parallel arrays of a question.\<close>

definition aligned :: "question \<Rightarrow> bool" where
  "aligned q \<longleftrightarrow> length (orEmpty (options q)) = length (orEmpty (correctCheckbox q))"

section \<open>What the specification says of validation and of a submission\<close>

text \<open>
  The violations of a draft, each with the field path it is reported at, stated
  independently of the order in which Zod visits the fields. For each question: an empty
  text; a type that is none of the three; each option that is blank after trimming; for
  a boolean question, no selected answer; for an input question, an answer that is
  absent or blank after trimming; for a checkbox question, no option, and one violation
  of its flags: they are absent or not as many as the options or, only when they are
  present and as many as the options, none of them is set.
\<close>

definition blank :: "jsstring option \<Rightarrow> bool" where
  "blank x \<longleftrightarrow> (case x of None \<Rightarrow> True | Some s \<Rightarrow> trim s = [])"

definition spec_question_violations :: "question \<Rightarrow> issue set" where
  "spec_question_violations q =
     (if text' q = [] then {([Key ''text''], Message ''Question text is required'')} else {}) \<union>
     (if type q \<noteq> boolean \<and> type q \<noteq> input \<and> type q \<noteq> checkbox
      then {([Key ''type''], Invalid_enum_value)} else {}) \<union>
     {([Key ''options'', Idx j], Message ''Option cannot be empty'') | j.
        j < length (orEmpty (options q)) \<and> trim (orEmpty (options q) ! j) = []} \<union>
     (if type q = boolean \<and> correctBoolean q = None
      then {([Key ''correctBoolean''], Message ''Select the correct answer'')} else {}) \<union>
     (if type q = input \<and> blank (correctInput q)
      then {([Key ''correctInput''], Message ''Provide the expected answer'')} else {}) \<union>
     (if type q = checkbox \<and> orEmpty (options q) = []
      then {([Key ''options''], Message ''Add at least one option for checkbox questions'')}
      else {}) \<union>
     (if type q = checkbox \<and>
         (correctCheckbox q = None \<or>
          length (orEmpty (correctCheckbox q)) \<noteq> length (orEmpty (options q)))
      then {([Key ''correctCheckbox''], Message ''Mark which options are correct'')} else {}) \<union>
     (if type q = checkbox \<and> correctCheckbox q \<noteq> None \<and>
         length (orEmpty (correctCheckbox q)) = length (orEmpty (options q)) \<and>
         True \<notin> set (orEmpty (correctCheckbox q))
      then {([Key ''correctCheckbox''], Message ''Select at least one correct option'')}
      else {})"

definition spec_violations :: "CreateQuizForm \<Rightarrow> issue set" where
  "spec_violations d =
     (if title d = [] then {([Key ''title''], Message ''Title is required'')} else {}) \<union>
     (if questions d = []
      then {([Key ''questions''], Message ''Add at least one question to the quiz'')}
      else {}) \<union>
     {atPath [Key ''questions'', Idx i] v | i v.
        i < length (questions d) \<and> v \<in> spec_question_violations (questions d ! i)}"

text \<open>
  The same without the rules on the type and on blank options: the violations as a
  reading that lists only the three type-specific rules and the three universal ones has
  them.
\<close>

definition listed_question_violations :: "question \<Rightarrow> issue set" where
  "listed_question_violations q =
     (if text' q = [] then {([Key ''text''], Message ''Question text is required'')} else {}) \<union>
     (if type q = boolean \<and> correctBoolean q = None
      then {([Key ''correctBoolean''], Message ''Select the correct answer'')} else {}) \<union>
     (if type q = input \<and> blank (correctInput q)
      then {([Key ''correctInput''], Message ''Provide the expected answer'')} else {}) \<union>
     (if type q = checkbox \<and> orEmpty (options q) = []
      then {([Key ''options''], Message ''Add at least one option for checkbox questions'')}
      else {}) \<union>
     (if type q = checkbox \<and>
         (correctCheckbox q = None \<or>
          length (orEmpty (correctCheckbox q)) \<noteq> length (orEmpty (options q)))
      then {([Key ''correctCheckbox''], Message ''Mark which options are correct'')} else {}) \<union>
     (if type q = checkbox \<and> correctCheckbox q \<noteq> None \<and>
         length (orEmpty (correctCheckbox q)) = length (orEmpty (options q)) \<and>
         True \<notin> set (orEmpty (correctCheckbox q))
      then {([Key ''correctCheckbox''], Message ''Select at least one correct option'')}
      else {})"

definition listed_violations :: "CreateQuizForm \<Rightarrow> issue set" where
  "listed_violations d =
     (if title d = [] then {([Key ''title''], Message ''Title is required'')} else {}) \<union>
     (if questions d = []
      then {([Key ''questions''], Message ''Add at least one question to the quiz'')}
      else {}) \<union>
     {atPath [Key ''questions'', Idx i] v | i v.
        i < length (questions d) \<and> v \<in> listed_question_violations (questions d ! i)}"



section \<open>The API helpers of services/api.ts\<close>

text \<open>
  Each helper makes one \<open>fetch\<close> call and reads the response. \<open>fetch\<close> is a parameter: it
  either rejects (no response arrived) or resolves to a response, of which the helpers
  read \<open>ok\<close> and \<open>json()\<close>; \<open>json\<close> is \<open>None\<close> when the body does not parse, in which
  case \<open>res.json()\<close> rejects. The four requests stand for the URL and method of the four
  calls. A helper returns the value its promise resolves to, or the error it rejects
  with: the \<open>Error\<close> it throws itself, the rejection of \<open>fetch\<close>, or that of \<open>res.json()\<close>.
\<close>

datatype ('i, 'p) request = GET_quizzes | GET_quiz 'i | POST_quizzes 'p | DELETE_quiz 'i

record 'a Response =
  ok :: bool
  json :: "'a option"

datatype 'a fetched = Rejects | Resolves "'a Response"

datatype api_error = Error string | FetchRejected | JsonRejected

definition res_json :: "'a Response \<Rightarrow> api_error + 'a" where
  "res_json res = (case json res of None \<Rightarrow> Inl JsonRejected | Some v \<Rightarrow> Inr v)"

definition getQuizzes :: "(('i, 'p) request \<Rightarrow> 'a fetched) \<Rightarrow> api_error + 'a" where
  "getQuizzes fetch =
     (case fetch GET_quizzes of
        Rejects \<Rightarrow> Inl FetchRejected
      | Resolves res \<Rightarrow>
          if \<not> ok res then Inl (Error ''Failed to fetch quizzes'') else res_json res)"

definition getQuiz :: "(('i, 'p) request \<Rightarrow> 'a fetched) \<Rightarrow> 'i \<Rightarrow> api_error + 'a" where
  "getQuiz fetch id' =
     (case fetch (GET_quiz id') of
        Rejects \<Rightarrow> Inl FetchRejected
      | Resolves res \<Rightarrow>
          if \<not> ok res then Inl (Error ''Failed to fetch quiz'') else res_json res)"

definition createQuiz :: "(('i, 'p) request \<Rightarrow> 'a fetched) \<Rightarrow> 'p \<Rightarrow> api_error + 'a" where
  "createQuiz fetch data =
     (case fetch (POST_quizzes data) of
        Rejects \<Rightarrow> Inl FetchRejected
      | Resolves res \<Rightarrow>
          if \<not> ok res then Inl (Error ''Failed to create quiz'') else res_json res)"

definition deleteQuiz :: "(('i, 'p) request \<Rightarrow> 'a fetched) \<Rightarrow> 'i \<Rightarrow> api_error + unit" where
  "deleteQuiz fetch id' =
     (case fetch (DELETE_quiz id') of
        Rejects \<Rightarrow> Inl FetchRejected
      | Resolves res \<Rightarrow>
          if \<not> ok res then Inl (Error ''Failed to delete quiz'') else Inr ())"

text \<open>A helper fails when its promise rejects, with whatever error.\<close>

fun fails :: "api_error + 'a \<Rightarrow> bool" where
  "fails (Inl e) \<longleftrightarrow> True"
| "fails (Inr v) \<longleftrightarrow> False"

section \<open>Strings and filtering by index\<close>

lemma dropWhile_rev_dropWhile:
  "dropWhile P (rev (dropWhile P (rev (dropWhile P s)))) = rev (dropWhile P (rev (dropWhile P s)))"
proof (cases "rev (dropWhile P (rev (dropWhile P s)))")
  case Nil
  then show ?thesis by (simp only: dropWhile.simps)
next
  case (Cons a u)
  let ?t = "dropWhile P s"
  have "rev (dropWhile P (rev ?t)) @ rev (takeWhile P (rev ?t)) = rev (rev ?t)"
    by (simp only: rev_append [symmetric] takeWhile_dropWhile_id)
  then have "?t = a # u @ rev (takeWhile P (rev ?t))" using Cons by simp
  then have "?t \<noteq> []" and "hd ?t = a" by (metis list.distinct(1), metis list.sel(1))
  then have "\<not> P a" using hd_dropWhile by metis
  then show ?thesis using Cons by simp
qed

lemma trim_idem: "trim (trim s) = trim s"
proof -
  let ?u = "rev (dropWhile isWhiteSpace (rev (dropWhile isWhiteSpace s)))"
  have "dropWhile isWhiteSpace ?u = ?u" by (rule dropWhile_rev_dropWhile)
  moreover have "dropWhile isWhiteSpace (rev ?u) = rev ?u"
    by (simp add: dropWhile_idem)
  ultimately show ?thesis by (simp add: trim_def)
qed

lemma filterByIndex_Nil: "filterByIndex p [] = []"
  by (simp add: filterByIndex_def)

lemma filterByIndex_Cons:
  "filterByIndex p (x # xs) = (if p 0 then [x] else []) @ filterByIndex (p \<circ> Suc) xs"
  by (simp add: filterByIndex_def enumerate_Suc_eq filter_map comp_def case_prod_unfold)


lemma flagAt_Nil: "flagAt [] = (\<lambda>_. False)"
  by (simp add: flagAt_def fun_eq_iff)

lemma flagAt_Cons: "flagAt (c # cs) \<circ> Suc = flagAt cs" "flagAt (c # cs) 0 = c"
  by (simp_all add: flagAt_def fun_eq_iff)

lemma filterByIndex_False: "filterByIndex (\<lambda>_. False) xs = []"
  by (simp add: filterByIndex_def)

lemma filterByIndex_flagAt:
  "filterByIndex (flagAt cs) xs = map fst (filter snd (zip xs cs))"
proof (induction xs arbitrary: cs)
  case Nil
  then show ?case by (simp add: filterByIndex_Nil)
next
  case (Cons x xs)
  show ?case
  proof (cases cs)
    case Nil
    then show ?thesis by (simp add: flagAt_Nil filterByIndex_False)
  next
    case (Cons c cs')
    then show ?thesis using Cons.IH [of cs'] by (simp add: filterByIndex_Cons flagAt_Cons)
  qed
qed

lemma filterByIndex_remove:
  "filterByIndex (\<lambda>idx. idx \<noteq> k) xs = take k xs @ drop (Suc k) xs"
proof (induction xs arbitrary: k)
  case Nil
  then show ?case by (simp add: filterByIndex_Nil)
next
  case (Cons x xs)
  show ?case
  proof (cases k)
    case 0
    have "filterByIndex ((\<lambda>idx. idx \<noteq> 0) \<circ> Suc) xs = xs"
      by (simp add: filterByIndex_def comp_def)
    then show ?thesis using 0 by (simp add: filterByIndex_Cons)
  next
    case (Suc k')
    have "(\<lambda>idx. idx \<noteq> Suc k') \<circ> Suc = (\<lambda>idx. idx \<noteq> k')" by (simp add: fun_eq_iff)
    then show ?thesis using Suc Cons.IH [of k'] by (simp add: filterByIndex_Cons)
  qed
qed

section \<open>The issues validation reports\<close>

lemma set_enumerate_0: "set (enumerate 0 xs) = {(i, xs ! i) | i. i < length xs}"
  by (auto simp: in_set_enumerate_eq)

lemma set_optionsSchema_issues:
  "set (optionsSchema_issues opts) =
     {([Key ''options'', Idx j], Message ''Option cannot be empty'') | j.
        j < length opts \<and> trim (opts ! j) = []}"
  by (auto simp: optionsSchema_issues_def set_enumerate_0 split: if_splits)

lemma list_ex_id: "list_ex (\<lambda>b. b) cs \<longleftrightarrow> True \<in> set cs"
  by (induction cs) auto

lemma questionTypes_distinct [simp]:
  "boolean \<noteq> input" "boolean \<noteq> checkbox" "input \<noteq> checkbox"
  "input \<noteq> boolean" "checkbox \<noteq> boolean" "checkbox \<noteq> input"
  by (simp_all add: boolean_def input_def checkbox_def js_def)

lemma in_questionTypes:
  "t \<in> set questionTypes \<longleftrightarrow> t = boolean \<or> t = input \<or> t = checkbox"
  by (simp add: questionTypes_def)

lemma type_objectSchema_output [simp]: "type (objectSchema_output q) = type q"
  by (simp add: objectSchema_output_def)

lemma superRefine_other_type:
  "type q \<noteq> boolean \<Longrightarrow> type q \<noteq> input \<Longrightarrow> type q \<noteq> checkbox \<Longrightarrow> superRefine q = []"
  by (simp add: superRefine_def)

lemma set_superRefine:
  "set (superRefine (objectSchema_output q)) =
     (if type q = boolean \<and> correctBoolean q = None
      then {([Key ''correctBoolean''], Message ''Select the correct answer'')} else {}) \<union>
     (if type q = input \<and> blank (correctInput q)
      then {([Key ''correctInput''], Message ''Provide the expected answer'')} else {}) \<union>
     (if type q = checkbox \<and> orEmpty (options q) = []
      then {([Key ''options''], Message ''Add at least one option for checkbox questions'')}
      else {}) \<union>
     (if type q = checkbox \<and>
         (correctCheckbox q = None \<or>
          length (orEmpty (correctCheckbox q)) \<noteq> length (orEmpty (options q)))
      then {([Key ''correctCheckbox''], Message ''Mark which options are correct'')} else {}) \<union>
     (if type q = checkbox \<and> correctCheckbox q \<noteq> None \<and>
         length (orEmpty (correctCheckbox q)) = length (orEmpty (options q)) \<and>
         True \<notin> set (orEmpty (correctCheckbox q))
      then {([Key ''correctCheckbox''], Message ''Select at least one correct option'')}
      else {})"
proof -
  consider (b) "type q = boolean" | (i) "type q = input" | (c) "type q = checkbox"
    | (other) "type q \<noteq> boolean" "type q \<noteq> input" "type q \<noteq> checkbox"
    by blast
  then show ?thesis
  proof cases
    case b
    then show ?thesis by (simp add: superRefine_def objectSchema_output_def)
  next
    case i
    then show ?thesis
      by (cases "correctInput q")
         (auto simp: superRefine_def objectSchema_output_def blank_def trim_def)
  next
    case c
    then show ?thesis
      by (cases "options q"; cases "correctCheckbox q")
         (auto simp: superRefine_def objectSchema_output_def orEmpty_def list_ex_id)
  next
    case other
    then show ?thesis by (simp add: superRefine_other_type)
  qed
qed

lemma set_questionSchema_issues:
  "set (questionSchema_issues q) = spec_question_violations q"
proof -
  have o: "set (case options q of None \<Rightarrow> [] | Some opts \<Rightarrow> optionsSchema_issues opts) =
     {([Key ''options'', Idx j], Message ''Option cannot be empty'') | j.
        j < length (orEmpty (options q)) \<and> trim (orEmpty (options q) ! j) = []}"
    by (cases "options q") (simp_all add: set_optionsSchema_issues orEmpty_def)
  have t: "set (if type q \<notin> set questionTypes then [([Key ''type''], Invalid_enum_value)]
        else []) =
     (if type q \<noteq> boolean \<and> type q \<noteq> input \<and> type q \<noteq> checkbox
      then {([Key ''type''], Invalid_enum_value)} else {})"
    by (simp add: in_questionTypes)
  have s: "set (if type q \<in> set questionTypes then superRefine (objectSchema_output q) else []) =
     set (superRefine (objectSchema_output q))"
  proof (cases "type q \<in> set questionTypes")
    case True
    then show ?thesis by simp
  next
    case False
    then have "superRefine (objectSchema_output q) = []"
      by (simp add: in_questionTypes superRefine_other_type)
    with False show ?thesis by simp
  qed
  show ?thesis
    unfolding questionSchema_issues_def spec_question_violations_def set_append o t s
      set_superRefine
    by auto
qed

lemma set_createQuizSchema_issues: "set (createQuizSchema_issues d) = spec_violations d"
proof -
  have "set (concat (map (\<lambda>(i, q). map (atPath [Key ''questions'', Idx i]) (questionSchema_issues q))
               (enumerate 0 (questions d)))) =
     {atPath [Key ''questions'', Idx i] v | i v.
        i < length (questions d) \<and> v \<in> spec_question_violations (questions d ! i)}"
    by (auto simp: set_enumerate_0 set_questionSchema_issues [symmetric])
  then show ?thesis
    unfolding createQuizSchema_issues_def spec_violations_def set_append
    by auto
qed

lemma fst_atPath: "fst (atPath p v) = p @ fst v"
  by (simp add: atPath_def)

lemma indexed_paths:
  assumes T: "\<And>i x p. p \<in> fst ` set (g i x) \<Longrightarrow> T i p"
  shows "p \<in> fst ` set (concat (map (\<lambda>(i, x). g i x) (enumerate n xs))) \<Longrightarrow> \<exists>i\<ge>n. T i p"
proof (induction xs arbitrary: n)
  case Nil
  then show ?case by simp
next
  case (Cons x xs)
  from Cons.prems have "p \<in> fst ` set (g n x) \<or>
      p \<in> fst ` set (concat (map (\<lambda>(i, x). g i x) (enumerate (Suc n) xs)))"
    by (simp only: enumerate_simps list.map concat.simps case_prod_conv set_append image_Un Un_iff)
  then show ?case
  proof
    assume "p \<in> fst ` set (g n x)"
    then have "T n p" by (rule T)
    then show ?thesis by blast
  next
    assume "p \<in> fst ` set (concat (map (\<lambda>(i, x). g i x) (enumerate (Suc n) xs)))"
    then obtain i where "Suc n \<le> i" "T i p" using Cons.IH by blast
    then have "n \<le> i \<and> T i p" by simp
    then show ?thesis by blast
  qed
qed

lemma distinct_indexed:
  assumes T: "\<And>i x p. p \<in> fst ` set (g i x) \<Longrightarrow> T i p"
    and inj: "\<And>i j p. T i p \<Longrightarrow> T j p \<Longrightarrow> i = j"
    and d: "\<And>i x. distinct (map fst (g i x))"
  shows "distinct (map fst (concat (map (\<lambda>(i, x). g i x) (enumerate n xs))))"
proof (induction xs arbitrary: n)
  case Nil
  then show ?case by simp
next
  case (Cons x xs)
  let ?rest = "concat (map (\<lambda>(i, x). g i x) (enumerate (Suc n) xs))"
  have "fst ` set (g n x) \<inter> fst ` set ?rest = {}"
  proof (rule ccontr)
    assume "fst ` set (g n x) \<inter> fst ` set ?rest \<noteq> {}"
    then obtain p where 1: "p \<in> fst ` set (g n x)" and 2: "p \<in> fst ` set ?rest" by blast
    from 1 have "T n p" by (rule T)
    moreover have "\<exists>i\<ge>Suc n. T i p"
    proof (rule indexed_paths [where g = g and T = T and xs = xs])
      show "\<And>i x p. p \<in> fst ` set (g i x) \<Longrightarrow> T i p" by (rule T)
      show "p \<in> fst ` set ?rest" by (rule 2)
    qed
    then obtain i where "Suc n \<le> i" "T i p" by blast
    ultimately show False using inj [of n p i] by simp
  qed
  moreover have "distinct (map fst (g n x))" by (rule d)
  moreover have "distinct (map fst ?rest)" by (rule Cons.IH)
  ultimately have "distinct (map fst (g n x @ ?rest))"
    by (simp only: map_append distinct_append set_map)
  then show ?case
    by (simp only: enumerate_simps list.map concat.simps case_prod_conv)
qed

lemma distinct_paths_optionsSchema: "distinct (map fst (optionsSchema_issues opts))"
  unfolding optionsSchema_issues_def
  by (rule distinct_indexed [where T = "\<lambda>j p. p = [Key ''options'', Idx j]"])
     (auto split: if_splits)

lemma paths_superRefine:
  "fst ` set (superRefine q) \<subseteq>
     {[Key ''correctBoolean''], [Key ''correctInput''], [Key ''options''], [Key ''correctCheckbox'']}"
  by (auto simp: superRefine_def split: if_splits option.splits)

lemma distinct_paths_superRefine: "distinct (map fst (superRefine q))"
  by (auto simp: superRefine_def split: if_splits option.splits)

lemma distinct_paths_questionSchema: "distinct (map fst (questionSchema_issues q))"
proof -
  define os where "os = (case options q of None \<Rightarrow> [] | Some opts \<Rightarrow> optionsSchema_issues opts)"
  define sr where "sr = (if type q \<in> set questionTypes then superRefine (objectSchema_output q) else [])"
  have d1: "distinct (map fst os)"
    unfolding os_def by (cases "options q") (simp_all add: distinct_paths_optionsSchema)
  have s1: "\<And>p. p \<in> fst ` set os \<Longrightarrow> length p = 2"
    unfolding os_def by (cases "options q") (auto simp: set_optionsSchema_issues)
  have d2: "distinct (map fst sr)"
    unfolding sr_def by (simp add: distinct_paths_superRefine)
  have s2: "\<And>p. p \<in> fst ` set sr \<Longrightarrow>
      length p = 1 \<and> p \<noteq> [Key ''text''] \<and> p \<noteq> [Key ''type'']"
    using paths_superRefine [of "objectSchema_output q"] unfolding sr_def
    by (auto split: if_splits)
  have disj: "fst ` set os \<inter> fst ` set sr = {}"
  proof (rule ccontr)
    assume "fst ` set os \<inter> fst ` set sr \<noteq> {}"
    then obtain p where 1: "p \<in> fst ` set os" and 2: "p \<in> fst ` set sr" by blast
    from s1 [OF 1] s2 [OF 2] show False by simp
  qed
  have t1: "[Key ''text''] \<notin> fst ` set os" using s1 [of "[Key ''text'']"] by auto
  have t2: "[Key ''text''] \<notin> fst ` set sr" using s2 [of "[Key ''text'']"] by auto
  have y1: "[Key ''type''] \<notin> fst ` set os" using s1 [of "[Key ''type'']"] by auto
  have y2: "[Key ''type''] \<notin> fst ` set sr" using s2 [of "[Key ''type'']"] by auto
  have "distinct (map fst
     ((if length (text' q) < 1 then [([Key ''text''], Message ''Question text is required'')]
       else []) @
      (if type q \<notin> set questionTypes then [([Key ''type''], Invalid_enum_value)] else []) @
      os @ sr))"
    using d1 d2 disj t1 t2 y1 y2 by (simp add: image_Un)
  then show ?thesis
    unfolding questionSchema_issues_def os_def sr_def .
qed

lemma distinct_paths_validate: "distinct (map fst (validate d))"
proof -
  define c where "c = concat (map (\<lambda>(i, q). map (atPath [Key ''questions'', Idx i]) (questionSchema_issues q))
               (enumerate 0 (questions d)))"
  let ?T = "\<lambda>i p. \<exists>r. p = Key ''questions'' # Idx i # r"
  have T: "\<And>i q p. p \<in> fst ` set (map (atPath [Key ''questions'', Idx i]) (questionSchema_issues q)) \<Longrightarrow> ?T i p"
    by (auto simp: fst_atPath)
  have dq: "\<And>i q. distinct (map fst (map (atPath [Key ''questions'', Idx i]) (questionSchema_issues q)))"
  proof -
    fix i q
    have "map fst (map (atPath [Key ''questions'', Idx i]) (questionSchema_issues q)) =
          map ((@) [Key ''questions'', Idx i]) (map fst (questionSchema_issues q))"
      by (simp add: fst_atPath)
    moreover have "distinct (map ((@) [Key ''questions'', Idx i]) (map fst (questionSchema_issues q)))"
      by (subst distinct_map) (simp add: distinct_paths_questionSchema inj_on_def)
    ultimately show "distinct (map fst (map (atPath [Key ''questions'', Idx i]) (questionSchema_issues q)))"
      by (simp only:)
  qed
  have dc: "distinct (map fst c)"
    unfolding c_def
  proof (rule distinct_indexed [where T = ?T])
    show "\<And>i x p. p \<in> fst ` set (map (atPath [Key ''questions'', Idx i]) (questionSchema_issues x)) \<Longrightarrow> ?T i p"
      by (rule T)
    show "\<And>i j p. ?T i p \<Longrightarrow> ?T j p \<Longrightarrow> i = j" by auto
    show "\<And>i x. distinct (map fst (map (atPath [Key ''questions'', Idx i]) (questionSchema_issues x)))"
      by (rule dq)
  qed
  have s: "\<And>p. p \<in> fst ` set c \<Longrightarrow> \<exists>i\<ge>0. ?T i p"
    unfolding c_def by (rule indexed_paths [where T = ?T]) (rule T)
  have n1: "[Key ''title''] \<notin> fst ` set c" using s by blast
  have n2: "[Key ''questions''] \<notin> fst ` set c" using s by blast
  have "distinct (map fst ((if length (title d) < 1 then [([Key ''title''], Message ''Title is required'')] else []) @
     (if length (questions d) < 1
      then [([Key ''questions''], Message ''Add at least one question to the quiz'')] else []) @ c))"
    using n1 n2 dc by simp
  then show ?thesis
    unfolding validate_def createQuizSchema_issues_def c_def .
qed

section \<open>Valid drafts and their submission\<close>

lemma no_violations:
  assumes "spec_question_violations q = {}"
  shows "text' q \<noteq> []"
    and "\<forall>opt \<in> set (orEmpty (options q)). trim opt \<noteq> []"
    and "type q = boolean \<Longrightarrow> correctBoolean q \<noteq> None"
    and "type q = input \<Longrightarrow> \<not> blank (correctInput q)"
    and "type q = checkbox \<Longrightarrow> orEmpty (options q) \<noteq> []"
    and "type q = checkbox \<Longrightarrow> correctCheckbox q \<noteq> None"
    and "type q = checkbox \<Longrightarrow> length (orEmpty (correctCheckbox q)) = length (orEmpty (options q))"
    and "type q = checkbox \<Longrightarrow> True \<in> set (orEmpty (correctCheckbox q))"
    and "type q = boolean \<or> type q = input \<or> type q = checkbox"
  using assms
  by (auto simp: spec_question_violations_def in_set_conv_nth split: if_splits)

lemma validate_Nil_iff:
  "validate d = [] \<longleftrightarrow> title d \<noteq> [] \<and> questions d \<noteq> [] \<and>
     (\<forall>q \<in> set (questions d). spec_question_violations q = {})"
proof -
  have "validate d = [] \<longleftrightarrow> spec_violations d = {}"
    by (simp add: validate_def set_createQuizSchema_issues [symmetric])
  also have "\<dots> \<longleftrightarrow> title d \<noteq> [] \<and> questions d \<noteq> [] \<and>
     {atPath [Key ''questions'', Idx i] v | i v.
        i < length (questions d) \<and> v \<in> spec_question_violations (questions d ! i)} = {}"
    by (simp add: spec_violations_def)
  also have "{atPath [Key ''questions'', Idx i] v | i v.
        i < length (questions d) \<and> v \<in> spec_question_violations (questions d ! i)} = {} \<longleftrightarrow>
     (\<forall>i < length (questions d). spec_question_violations (questions d ! i) = {})"
    by blast
  also have "\<dots> \<longleftrightarrow> (\<forall>q \<in> set (questions d). spec_question_violations q = {})"
    by (simp add: all_set_conv_all_nth)
  finally show ?thesis .
qed

lemma handleSubmit_valid:
  "validate d = [] \<Longrightarrow> handleSubmit d = Some (onSubmit (createQuizSchema_output d))"
  by (simp add: handleSubmit_def zodResolver_def validate_def)


lemma submitted_title: "payload_title (onSubmit (createQuizSchema_output d)) = title d"
  by (simp add: onSubmit_def createQuizSchema_output_def)

lemma submitted_length:
  "length (payload_questions (onSubmit (createQuizSchema_output d))) = length (questions d)"
  by (simp add: onSubmit_def createQuizSchema_output_def)

lemma submitted_question:
  "i < length (questions d) \<Longrightarrow>
   payload_questions (onSubmit (createQuizSchema_output d)) ! i =
   questionPayload (objectSchema_output (questions d ! i))"
  by (simp add: onSubmit_def createQuizSchema_output_def)

lemma orEmpty_output:
  "orEmpty (options (objectSchema_output q)) = map trim (orEmpty (options q))"
  by (cases "options q") (simp_all add: orEmpty_def objectSchema_output_def)

lemma questionPayload_checkbox:
  "type q = checkbox \<Longrightarrow>
   questionPayload (objectSchema_output q) =
     CheckboxQuizQuestionPayload (text' q) checkbox (map trim (orEmpty (options q)))
       (map fst (filter snd (zip (map trim (orEmpty (options q))) (orEmpty (correctCheckbox q)))))"
proof -
  assume t: "type q = checkbox"
  have f: "text' (objectSchema_output q) = text' q" "type (objectSchema_output q) = type q"
    "correctCheckbox (objectSchema_output q) = correctCheckbox q"
    by (simp_all add: objectSchema_output_def)
  have m: "map trim (map trim (orEmpty (options q))) = map trim (orEmpty (options q))"
    by (simp add: trim_idem)
  show ?thesis
    unfolding questionPayload_def Let_def f orEmpty_output m filterByIndex_flagAt
    using t by simp
qed

lemma questionPayload_boolean:
  "type q = boolean \<Longrightarrow>
   questionPayload (objectSchema_output q) =
     BooleanQuizQuestionPayload (text' q) boolean (Some [js ''True'', js ''False''])
       (correctBoolean q = Some str_true)"
  by (simp add: questionPayload_def objectSchema_output_def)

lemma questionPayload_input:
  "type q = input \<Longrightarrow> correctInput q = Some a \<Longrightarrow>
   questionPayload (objectSchema_output q) = InputQuizQuestionPayload (text' q) input (trim a)"
  by (simp add: questionPayload_def objectSchema_output_def)

lemma payload_text_questionPayload:
  "payload_text (questionPayload (objectSchema_output q)) = text' q"
  by (simp add: questionPayload_def objectSchema_output_def Let_def)




section \<open>Claims on validation and submission\<close>




text \<open>
  C2, as stated, lists six kinds of violation and says that validation reports exactly
  those. The schema has two more rules: on every question, a type that is not one of the
  three is reported at \<open>questions[i].type\<close>; and on every question that carries options,
  an option that is blank after trimming is reported at \<open>questions[i].options[j]\<close>. The
  draft below has none of the six listed violations, and validation reports an issue on
  it.
\<close>

theorem validate_listed_only_counterexample:
  "set (validate
     \<lparr>title = js ''T'',
      questions =
        [\<lparr>text' = js ''Q'', type = checkbox, options = Some [js '' ''],
          correctBoolean = None, correctInput = None, correctCheckbox = Some [True]\<rparr>]\<rparr>) \<noteq>
   listed_violations
     \<lparr>title = js ''T'',
      questions =
        [\<lparr>text' = js ''Q'', type = checkbox, options = Some [js '' ''],
          correctBoolean = None, correctInput = None, correctCheckbox = Some [True]\<rparr>]\<rparr>"
  (is "set (validate ?d) \<noteq> listed_violations ?d")
proof -
  have "validate ?d =
      [([Key ''questions'', Idx 0, Key ''options'', Idx 0], Message ''Option cannot be empty'')]"
    by code_simp
  moreover have "listed_violations ?d = {}"
    by (simp add: listed_violations_def listed_question_violations_def orEmpty_def js_def)
  ultimately show ?thesis by (simp only: list.set) simp
qed

text \<open>
  C2, amended. Validation reports exactly the violations of \<open>spec_violations\<close>: the empty
  title, the empty list of questions, and for each question the empty text, the type
  that is none of the three, each option that is blank after trimming, the boolean
  question without a selected answer, the input question whose answer is absent or blank
  after trimming, the checkbox question without options, and the checkbox question whose
  flags are absent or not as many as the options. The checkbox question none of whose
  flags is set is reported only when its flags are present and as many as the options:
  the two rules on the flags share a field path and the second is the \<open>else\<close> of the
  first. Validation does not stop at the first violation: it reports every one of
  these, each at its field path, and no path twice.
\<close>

theorem validate_reports_every_violation:
  "set (validate d) = spec_violations d \<and> distinct (map fst (validate d))"
  by (simp add: validate_def set_createQuizSchema_issues distinct_paths_validate [unfolded validate_def])

theorem validate_reports_every_violation_witness:
  "spec_violations
     \<lparr>title = js '''',
      questions =
        [\<lparr>text' = js '''', type = checkbox, options = Some [js ''a'', js '' ''],
          correctBoolean = None, correctInput = None, correctCheckbox = Some [False]\<rparr>,
         \<lparr>text' = js ''Q'', type = input, options = None,
          correctBoolean = None, correctInput = Some (js ''  ''), correctCheckbox = None\<rparr>,
         \<lparr>text' = js ''Q'', type = js '''', options = None,
          correctBoolean = None, correctInput = Some (js ''''), correctCheckbox = None\<rparr>,
         \<lparr>text' = js ''Q'', type = checkbox, options = Some [js ''a''],
          correctBoolean = None, correctInput = None, correctCheckbox = Some [False]\<rparr>]\<rparr> =
   set [([Key ''title''], Message ''Title is required''),
        ([Key ''questions'', Idx 0, Key ''text''], Message ''Question text is required''),
        ([Key ''questions'', Idx 0, Key ''options'', Idx 1], Message ''Option cannot be empty''),
        ([Key ''questions'', Idx 0, Key ''correctCheckbox''],
         Message ''Mark which options are correct''),
        ([Key ''questions'', Idx 1, Key ''correctInput''],
         Message ''Provide the expected answer''),
        ([Key ''questions'', Idx 2, Key ''type''], Invalid_enum_value),
        ([Key ''questions'', Idx 3, Key ''correctCheckbox''],
         Message ''Select at least one correct option'')]"
  (is "spec_violations ?d = set ?is")
proof -
  have "validate ?d = ?is" by code_simp
  with validate_reports_every_violation [of ?d] show ?thesis by (simp only:)
qed

section \<open>The payload of each kind of question\<close>

lemma trim_whitespace: "list_all isWhiteSpace s \<Longrightarrow> trim s = []"
proof -
  assume "list_all isWhiteSpace s"
  then have d: "dropWhile isWhiteSpace s = []" by (simp only: list_all_iff dropWhile_eq_Nil_conv)
  show ?thesis unfolding trim_def d by simp
qed

lemma title_issue_iff:
  "([Key ''title''], Message ''Title is required'') \<in> set (validate d) \<longleftrightarrow> title d = []"
  by (auto simp: validate_def set_createQuizSchema_issues spec_violations_def atPath_def)

lemma text_issue_iff:
  assumes "i < length (questions d)"
  shows "([Key ''questions'', Idx i, Key ''text''], Message ''Question text is required'') \<in> set (validate d)
     \<longleftrightarrow> text' (questions d ! i) = []"
proof -
  have "([Key ''questions'', Idx i, Key ''text''], Message ''Question text is required'') \<in> set (validate d)
     \<longleftrightarrow> ([Key ''text''], Message ''Question text is required'') \<in> spec_question_violations (questions d ! i)"
    using assms
    by (auto simp: validate_def set_createQuizSchema_issues spec_violations_def atPath_def)
  also have "\<dots> \<longleftrightarrow> text' (questions d ! i) = []"
    by (auto simp: spec_question_violations_def)
  finally show ?thesis .
qed

lemma option_issue:
  assumes "i < length (questions d)" and "options (questions d ! i) = Some opts"
    and "j < length opts" and "trim (opts ! j) = []"
  shows "([Key ''questions'', Idx i, Key ''options'', Idx j], Message ''Option cannot be empty'') \<in> set (validate d)"
proof -
  have "([Key ''options'', Idx j], Message ''Option cannot be empty'') \<in> spec_question_violations (questions d ! i)"
    using assms by (simp add: spec_question_violations_def orEmpty_def)
  then have "atPath [Key ''questions'', Idx i] ([Key ''options'', Idx j], Message ''Option cannot be empty'')
      \<in> spec_violations d"
    using assms(1) unfolding spec_violations_def by blast
  then show ?thesis
    by (simp add: validate_def set_createQuizSchema_issues atPath_def)
qed

text \<open>
  C3. For a valid draft, a checkbox question is submitted with its text, with the type
  checkbox, with its options each trimmed, and with the answer made of the trimmed
  options whose flag at the same index is set, in their order. With the options Red,
  Green, Blue and the flags true, false, true the answer is Red, Blue.
\<close>

theorem checkbox_submission:
  assumes "validate d = []" and "i < length (questions d)"
    and "type (questions d ! i) = checkbox"
  shows "\<exists>s. handleSubmit d = Some s \<and>
     length (payload_questions s) = length (questions d) \<and>
     payload_questions s ! i =
       CheckboxQuizQuestionPayload (text' (questions d ! i)) checkbox
         (map trim (orEmpty (options (questions d ! i))))
         (map fst (filter snd (zip (map trim (orEmpty (options (questions d ! i))))
                                   (orEmpty (correctCheckbox (questions d ! i))))))"
  using assms
  by (simp add: handleSubmit_valid submitted_length submitted_question questionPayload_checkbox)

theorem checkbox_submission_witness:
  "validate
     \<lparr>title = js ''Sample Quiz'',
      questions =
        [\<lparr>text' = js ''Primary colors'', type = checkbox,
          options = Some [js ''Red'', js ''Green'', js ''Blue''],
          correctBoolean = None, correctInput = None,
          correctCheckbox = Some [True, False, True]\<rparr>]\<rparr> = [] \<and>
   (\<exists>s. handleSubmit
     \<lparr>title = js ''Sample Quiz'',
      questions =
        [\<lparr>text' = js ''Primary colors'', type = checkbox,
          options = Some [js ''Red'', js ''Green'', js ''Blue''],
          correctBoolean = None, correctInput = None,
          correctCheckbox = Some [True, False, True]\<rparr>]\<rparr> = Some s \<and>
      payload_questions s ! 0 =
        CheckboxQuizQuestionPayload (js ''Primary colors'') checkbox
          [js ''Red'', js ''Green'', js ''Blue''] [js ''Red'', js ''Blue''])"
  (is "validate ?d = [] \<and> ?R")
proof -
  have v: "validate ?d = []" by code_simp
  have i: "0 < length (questions ?d)" by simp
  have t: "type (questions ?d ! 0) = checkbox" by simp
  have e: "map trim (orEmpty (options (questions ?d ! 0))) = [js ''Red'', js ''Green'', js ''Blue'']"
    by code_simp
  have c: "orEmpty (correctCheckbox (questions ?d ! 0)) = [True, False, True]"
    by (simp add: orEmpty_def)
  from checkbox_submission [OF v i t] have ?R unfolding e c by auto
  with v show ?thesis by (rule conjI)
qed

text \<open>
  C4. For a valid draft, a boolean question is submitted with its text, with the type
  boolean, with the options True and False, and with the answer true exactly when
  \<open>correctBoolean\<close> is the string \<open>true\<close>; the title is submitted as it is. The draft
  titled Geo with one boolean question answered \<open>true\<close> is submitted so.
\<close>

theorem boolean_submission:
  assumes "validate d = []" and "i < length (questions d)"
    and "type (questions d ! i) = boolean"
  shows "\<exists>s. handleSubmit d = Some s \<and> payload_title s = title d \<and>
     length (payload_questions s) = length (questions d) \<and>
     payload_questions s ! i =
       BooleanQuizQuestionPayload (text' (questions d ! i)) boolean (Some [js ''True'', js ''False''])
         (correctBoolean (questions d ! i) = Some str_true)"
  using assms
  by (simp add: handleSubmit_valid submitted_length submitted_title submitted_question
      questionPayload_boolean)

theorem boolean_submission_witness:
  "validate
     \<lparr>title = js ''Geo'',
      questions =
        [\<lparr>text' = js ''The sky is blue'', type = boolean, options = None,
          correctBoolean = Some str_true, correctInput = None, correctCheckbox = None\<rparr>]\<rparr> = [] \<and>
   (\<exists>s. handleSubmit
     \<lparr>title = js ''Geo'',
      questions =
        [\<lparr>text' = js ''The sky is blue'', type = boolean, options = None,
          correctBoolean = Some str_true, correctInput = None, correctCheckbox = None\<rparr>]\<rparr> = Some s \<and>
      payload_title s = js ''Geo'' \<and> length (payload_questions s) = 1 \<and>
      payload_questions s ! 0 =
        BooleanQuizQuestionPayload (js ''The sky is blue'') boolean (Some [js ''True'', js ''False'']) True)"
  (is "validate ?d = [] \<and> ?R")
proof -
  have v: "validate ?d = []" by code_simp
  have i: "0 < length (questions ?d)" by simp
  have t: "type (questions ?d ! 0) = boolean" by simp
  from boolean_submission [OF v i t] have ?R by auto
  with v show ?thesis by (rule conjI)
qed

text \<open>
  C5, as stated, says the submitted text of a question is the draft's text trimmed. The
  draft below is valid; its question text has a space on each side, and is submitted
  with both.
\<close>

theorem submission_text_trimmed_counterexample:
  "handleSubmit
     \<lparr>title = js ''T'',
      questions =
        [\<lparr>text' = js '' Q '', type = input, options = None,
          correctBoolean = None, correctInput = Some (js ''A''), correctCheckbox = None\<rparr>]\<rparr> =
     Some (CreateQuizPayload (js ''T'') [InputQuizQuestionPayload (js '' Q '') input (js ''A'')]) \<and>
   payload_text (payload_questions
       (CreateQuizPayload (js ''T'') [InputQuizQuestionPayload (js '' Q '') input (js ''A'')]) ! 0) \<noteq>
     trim (text' (questions
       \<lparr>title = js ''T'',
        questions =
          [\<lparr>text' = js '' Q '', type = input, options = None,
            correctBoolean = None, correctInput = Some (js ''A''), correctCheckbox = None\<rparr>]\<rparr> ! 0))"
  by code_simp

text \<open>
  C5, amended. For a valid draft the title and the text of each question are submitted
  unchanged, without trimming; the answer of an input question is its \<open>correctInput\<close>
  trimmed. (The options of a checkbox question are trimmed, as C3 states.)
\<close>

theorem submission_text_fields:
  assumes "validate d = []" and "i < length (questions d)"
  shows "\<exists>s. handleSubmit d = Some s \<and> payload_title s = title d \<and>
     payload_text (payload_questions s ! i) = text' (questions d ! i) \<and>
     (type (questions d ! i) = input \<longrightarrow>
        (\<exists>a. correctInput (questions d ! i) = Some a \<and>
           payload_questions s ! i =
             InputQuizQuestionPayload (text' (questions d ! i)) input (trim a)))"
proof -
  have "spec_question_violations (questions d ! i) = {}"
    using assms by (simp add: validate_Nil_iff)
  then have "type (questions d ! i) = input \<Longrightarrow> \<exists>a. correctInput (questions d ! i) = Some a"
    using no_violations(4) [of "questions d ! i"] by (cases "correctInput (questions d ! i)") (simp_all add: blank_def)
  then show ?thesis
    using assms
    by (auto simp: handleSubmit_valid submitted_title submitted_question
        payload_text_questionPayload questionPayload_input)
qed

theorem submission_text_fields_witness:
  "validate
     \<lparr>title = js '' T'',
      questions =
        [\<lparr>text' = js '' Q '', type = input, options = None,
          correctBoolean = None, correctInput = Some (js '' A ''), correctCheckbox = None\<rparr>]\<rparr> = [] \<and>
   (\<exists>s. handleSubmit
     \<lparr>title = js '' T'',
      questions =
        [\<lparr>text' = js '' Q '', type = input, options = None,
          correctBoolean = None, correctInput = Some (js '' A ''), correctCheckbox = None\<rparr>]\<rparr> = Some s \<and>
      payload_title s = js '' T'' \<and>
      payload_questions s ! 0 = InputQuizQuestionPayload (js '' Q '') input (js ''A''))"
  (is "validate ?d = [] \<and> ?R")
proof -
  have v: "validate ?d = []" by code_simp
  have i: "0 < length (questions ?d)" by simp
  have e: "trim (js '' A '') = js ''A''" by code_simp
  from submission_text_fields [OF v i] have ?R using e by auto
  with v show ?thesis by (rule conjI)
qed

text \<open>
  C10. Validation tests the title and the text of a question by their raw length only:
  the issue is reported exactly when the string has no code unit, so a string of
  whitespace passes. An option made of whitespace only is reported as empty. There is a
  draft whose title is a single space that passes validation and is submitted with that
  title.
\<close>

theorem whitespace_title_accepted:
  "(([Key ''title''], Message ''Title is required'') \<in> set (validate d) \<longleftrightarrow> length (title d) < 1) \<and>
   (i < length (questions d) \<longrightarrow>
      (([Key ''questions'', Idx i, Key ''text''], Message ''Question text is required'') \<in> set (validate d)
         \<longleftrightarrow> length (text' (questions d ! i)) < 1)) \<and>
   (i < length (questions d) \<and> options (questions d ! i) = Some opts \<and> j < length opts \<and>
    list_all isWhiteSpace (opts ! j) \<longrightarrow>
      ([Key ''questions'', Idx i, Key ''options'', Idx j], Message ''Option cannot be empty'')
         \<in> set (validate d)) \<and>
   (\<exists>d' s. title d' = js '' '' \<and> validate d' = [] \<and> handleSubmit d' = Some s \<and>
      payload_title s = js '' '')"
proof -
  let ?d = "\<lparr>title = js '' '', questions = [\<lparr>text' = js '' '', type = input, options = None,
      correctBoolean = None, correctInput = Some (js ''A''), correctCheckbox = None\<rparr>]\<rparr>"
  have v: "validate ?d = []" by code_simp
  have "title ?d = js '' '' \<and> validate ?d = [] \<and>
      handleSubmit ?d = Some (onSubmit (createQuizSchema_output ?d)) \<and>
      payload_title (onSubmit (createQuizSchema_output ?d)) = js '' ''"
    using v handleSubmit_valid [OF v] submitted_title [of ?d] by simp
  then have ex: "\<exists>d' s. title d' = js '' '' \<and> validate d' = [] \<and> handleSubmit d' = Some s \<and>
      payload_title s = js '' ''"
    by blast
  show ?thesis
    using title_issue_iff [of d] text_issue_iff [of i d] option_issue [of i d opts j] ex
    by (simp add: trim_whitespace)
qed

theorem whitespace_title_accepted_witness:
  "([Key ''title''], Message ''Title is required'') \<notin>
     set (validate
       \<lparr>title = js '' '',
        questions =
          [\<lparr>text' = js '' '', type = checkbox, options = Some [js ''a'', js '' ''],
            correctBoolean = None, correctInput = None,
            correctCheckbox = Some [True, False]\<rparr>]\<rparr>) \<and>
   ([Key ''questions'', Idx 0, Key ''text''], Message ''Question text is required'') \<notin>
     set (validate
       \<lparr>title = js '' '',
        questions =
          [\<lparr>text' = js '' '', type = checkbox, options = Some [js ''a'', js '' ''],
            correctBoolean = None, correctInput = None,
            correctCheckbox = Some [True, False]\<rparr>]\<rparr>) \<and>
   ([Key ''questions'', Idx 0, Key ''options'', Idx 1], Message ''Option cannot be empty'') \<in>
     set (validate
       \<lparr>title = js '' '',
        questions =
          [\<lparr>text' = js '' '', type = checkbox, options = Some [js ''a'', js '' ''],
            correctBoolean = None, correctInput = None,
            correctCheckbox = Some [True, False]\<rparr>]\<rparr>)"
  (is "?t \<notin> set (validate ?d) \<and> ?x \<notin> _ \<and> ?o \<in> _")
proof -
  have w: "list_all isWhiteSpace ([js ''a'', js '' ''] ! 1)" by code_simp
  have l: "\<not> length (js '' '') < 1" by (simp add: js_def)
  from whitespace_title_accepted [of ?d 0 "[js ''a'', js '' '']" 1] w l
  show ?thesis by simp
qed

section \<open>Claims on editing the draft\<close>

lemma orEmpty_orUndefined: "orEmpty (orUndefined xs) = xs"
  by (cases xs) (simp_all add: orEmpty_def orUndefined_def)

lemma atQuestion_Some:
  "i < length (questions form) \<Longrightarrow>
   atQuestion form i f = Some (form\<lparr>questions := (questions form)[i := f (questions form ! i)]\<rparr>)"
  by (simp add: atQuestion_def)

lemma atQuestion_length:
  "atQuestion form i f = Some form' \<Longrightarrow> length (questions form') = length (questions form)"
  by (auto simp: atQuestion_def split: if_splits)

lemma addOption_question_arrays:
  "orEmpty (options (addOption_question q)) = orEmpty (options q) @ [js '''']"
  "orEmpty (correctCheckbox (addOption_question q)) = orEmpty (correctCheckbox q) @ [False]"
  by (simp_all add: addOption_question_def orEmpty_def)

lemma removeOption_question_arrays:
  "orEmpty (options (removeOption_question k q)) =
     take k (orEmpty (options q)) @ drop (Suc k) (orEmpty (options q))"
  "orEmpty (correctCheckbox (removeOption_question k q)) =
     take k (orEmpty (correctCheckbox q)) @ drop (Suc k) (orEmpty (correctCheckbox q))"
  by (simp_all add: removeOption_question_def Let_def orEmpty_orUndefined filterByIndex_remove)

lemma aligned_addOption: "aligned q \<Longrightarrow> aligned (addOption_question q)"
  by (simp add: aligned_def addOption_question_arrays)

lemma aligned_removeOption: "aligned q \<Longrightarrow> aligned (removeOption_question k q)"
  by (simp add: aligned_def removeOption_question_arrays)

lemma perform_optionCall:
  assumes "i < length (questions form)" and "aligned (questions form ! i)"
    and "isOptionCall i a"
  shows "\<exists>form'. perform form a = Some form' \<and>
     length (questions form') = length (questions form) \<and> aligned (questions form' ! i)"
proof (cases a)
  case (AddOption k)
  then show ?thesis using assms
    by (simp add: addOption_def atQuestion_Some aligned_addOption)
next
  case (RemoveOption k oi)
  then show ?thesis using assms
    by (simp add: removeOption_def atQuestion_Some aligned_removeOption)
qed (use assms in simp_all)

lemma performAll_optionCalls:
  assumes "i < length (questions form)" and "aligned (questions form ! i)"
    and "list_all (isOptionCall i) calls"
  shows "\<exists>form'. performAll form calls = Some form' \<and>
     length (questions form') = length (questions form) \<and> aligned (questions form' ! i)"
  using assms
proof (induction calls arbitrary: form)
  case Nil
  then show ?case by simp
next
  case (Cons a calls)
  from Cons.prems obtain form1 where 1: "perform form a = Some form1"
    and 2: "length (questions form1) = length (questions form)"
    and 3: "aligned (questions form1 ! i)"
    using perform_optionCall [of i form a] by auto
  from Cons.IH [of form1] Cons.prems 2 3 obtain form' where
    "performAll form1 calls = Some form'"
    "length (questions form') = length (questions form1)" "aligned (questions form' ! i)"
    by auto
  then show ?case using 1 2 by simp
qed

text \<open>
  C6. From a question whose options and flags have the same length, every sequence of
  \<open>addOption\<close> and \<open>removeOption\<close> calls on that question succeeds and leaves the two
  arrays of the same length (an absent array counts as empty); as this holds of every
  sequence, it holds after every call. \<open>addOption\<close> appends the empty string to the
  options and false to the flags; \<open>removeOption\<close> removes the entry at the given index
  from both.
\<close>

theorem option_arrays_stay_aligned:
  assumes "questionIndex < length (questions form)"
    and "aligned (questions form ! questionIndex)"
    and "list_all (isOptionCall questionIndex) calls"
  shows "(\<exists>form'. performAll form calls = Some form' \<and>
       length (questions form') = length (questions form) \<and>
       aligned (questions form' ! questionIndex)) \<and>
     (\<exists>form'. addOption form questionIndex = Some form' \<and>
       orEmpty (options (questions form' ! questionIndex)) =
         orEmpty (options (questions form ! questionIndex)) @ [js ''''] \<and>
       orEmpty (correctCheckbox (questions form' ! questionIndex)) =
         orEmpty (correctCheckbox (questions form ! questionIndex)) @ [False]) \<and>
     (\<exists>form'. removeOption form questionIndex optionIndex = Some form' \<and>
       orEmpty (options (questions form' ! questionIndex)) =
         take optionIndex (orEmpty (options (questions form ! questionIndex))) @
         drop (Suc optionIndex) (orEmpty (options (questions form ! questionIndex))) \<and>
       orEmpty (correctCheckbox (questions form' ! questionIndex)) =
         take optionIndex (orEmpty (correctCheckbox (questions form ! questionIndex))) @
         drop (Suc optionIndex) (orEmpty (correctCheckbox (questions form ! questionIndex))))"
proof (intro conjI)
  show "\<exists>form'. performAll form calls = Some form' \<and>
       length (questions form') = length (questions form) \<and>
       aligned (questions form' ! questionIndex)"
    using assms by (rule performAll_optionCalls)
next
  show "\<exists>form'. addOption form questionIndex = Some form' \<and>
       orEmpty (options (questions form' ! questionIndex)) =
         orEmpty (options (questions form ! questionIndex)) @ [js ''''] \<and>
       orEmpty (correctCheckbox (questions form' ! questionIndex)) =
         orEmpty (correctCheckbox (questions form ! questionIndex)) @ [False]"
    using assms(1) by (simp add: addOption_def atQuestion_Some addOption_question_arrays)
next
  show "\<exists>form'. removeOption form questionIndex optionIndex = Some form' \<and>
       orEmpty (options (questions form' ! questionIndex)) =
         take optionIndex (orEmpty (options (questions form ! questionIndex))) @
         drop (Suc optionIndex) (orEmpty (options (questions form ! questionIndex))) \<and>
       orEmpty (correctCheckbox (questions form' ! questionIndex)) =
         take optionIndex (orEmpty (correctCheckbox (questions form ! questionIndex))) @
         drop (Suc optionIndex) (orEmpty (correctCheckbox (questions form ! questionIndex)))"
    using assms(1) by (simp add: removeOption_def atQuestion_Some removeOption_question_arrays)
qed

theorem option_arrays_stay_aligned_witness:
  "aligned (questions
     \<lparr>title = js ''T'',
      questions =
        [\<lparr>text' = js ''Q'', type = checkbox, options = Some [js ''a''],
          correctBoolean = None, correctInput = None, correctCheckbox = Some [True]\<rparr>]\<rparr> ! 0) \<and>
   (\<exists>form'. performAll
     \<lparr>title = js ''T'',
      questions =
        [\<lparr>text' = js ''Q'', type = checkbox, options = Some [js ''a''],
          correctBoolean = None, correctInput = None, correctCheckbox = Some [True]\<rparr>]\<rparr>
     [AddOption 0, RemoveOption 0 0, RemoveOption 0 0, AddOption 0] = Some form' \<and>
     aligned (questions form' ! 0))"
  (is "aligned (questions ?f ! 0) \<and> ?R")
proof -
  have a: "aligned (questions ?f ! 0)" by (simp add: aligned_def orEmpty_def)
  have i: "0 < length (questions ?f)" by simp
  have c: "list_all (isOptionCall 0) [AddOption 0, RemoveOption 0 0, RemoveOption 0 0, AddOption 0]"
    by simp
  from option_arrays_stay_aligned [OF i a c, of 0] have ?R by blast
  with a show ?thesis by (rule conjI)
qed

lemma selectType_Some:
  "i < length (questions form) \<Longrightarrow>
   selectType form i newType =
     Some (form\<lparr>questions := (questions form)
        [i := handleTypeChange_question newType ((questions form ! i)\<lparr>type := newType\<rparr>)]\<rparr>)"
  by (simp add: selectType_def handleTypeChange_def atQuestion_def)

lemma selectType_input_question:
  "handleTypeChange_question input (q\<lparr>type := input\<rparr>) =
     q\<lparr>type := input, options := None, correctCheckbox := None, correctBoolean := None,
       correctInput := Some (js '''')\<rparr>"
  by (simp add: handleTypeChange_question_def)

lemma selectType_checkbox_question:
  "handleTypeChange_question checkbox (q\<lparr>type := checkbox\<rparr>) =
     q\<lparr>type := checkbox,
       options := Some (if orEmpty (options q) \<noteq> [] then orEmpty (options q) else [js '''']),
       correctCheckbox := Some (map (flagAt (orEmpty (correctCheckbox q)))
          [0..<length (if orEmpty (options q) \<noteq> [] then orEmpty (options q) else [js ''''])]),
       correctBoolean := None, correctInput := None\<rparr>"
  by (simp add: handleTypeChange_question_def Let_def)

lemma handleTypeChange_question_text:
  "text' (handleTypeChange_question newType q) = text' q"
  by (simp add: handleTypeChange_question_def Let_def)

lemma three_switches_question:
  "handleTypeChange_question checkbox
     ((handleTypeChange_question input
        ((handleTypeChange_question checkbox (q\<lparr>type := checkbox\<rparr>))\<lparr>type := input\<rparr>))
      \<lparr>type := checkbox\<rparr>) =
   q\<lparr>type := checkbox, options := Some [js ''''], correctCheckbox := Some [False],
     correctBoolean := None, correctInput := None\<rparr>"
  by (simp add: selectType_input_question selectType_checkbox_question orEmpty_def flagAt_def)

text \<open>
  C7, as stated, says that switching a question to checkbox, then to input, then to
  checkbox again restores its options. Switching to input clears options and flags, so
  the last switch finds none and seeds the single empty option.
\<close>

theorem type_switches_restore_options_counterexample:
  "performAll
     \<lparr>title = js ''T'',
      questions =
        [\<lparr>text' = js ''Q'', type = checkbox, options = Some [js ''Red'', js ''Green''],
          correctBoolean = None, correctInput = None, correctCheckbox = Some [True, False]\<rparr>]\<rparr>
     [SelectType 0 checkbox, SelectType 0 input, SelectType 0 checkbox] =
   Some
     \<lparr>title = js ''T'',
      questions =
        [\<lparr>text' = js ''Q'', type = checkbox, options = Some [js ''''],
          correctBoolean = None, correctInput = None, correctCheckbox = Some [False]\<rparr>]\<rparr> \<and>
   options
     (handleTypeChange_question checkbox (handleTypeChange_question input
        (handleTypeChange_question checkbox
           \<lparr>text' = js ''Q'', type = checkbox, options = Some [js ''Red'', js ''Green''],
            correctBoolean = None, correctInput = None,
            correctCheckbox = Some [True, False]\<rparr>))) = Some [js ''''] \<and>
   Some [js ''''] \<noteq> Some [js ''Red'', js ''Green'']"
  by code_simp

text \<open>
  C7, amended. After the three switches the question keeps its text and has type
  checkbox, the single option \<open>""\<close> and the single flag false, whatever its options were;
  the title and the other questions are unchanged. A single switch, to any type, keeps
  the text; a single switch to checkbox keeps non-empty existing options, with the flag
  at each index where one existed and false elsewhere.
\<close>

theorem type_switches_reset_options:
  assumes "i < length (questions d)"
  shows "(\<exists>d'. performAll d [SelectType i checkbox, SelectType i input, SelectType i checkbox] = Some d' \<and>
       title d' = title d \<and>
       questions d' = (questions d)[i := (questions d ! i)
          \<lparr>type := checkbox, options := Some [js ''''], correctCheckbox := Some [False],
           correctBoolean := None, correctInput := None\<rparr>]) \<and>
     (\<exists>d'. selectType d i newType = Some d' \<and>
       text' (questions d' ! i) = text' (questions d ! i) \<and>
       (newType = checkbox \<and> orEmpty (options (questions d ! i)) \<noteq> [] \<longrightarrow>
          options (questions d' ! i) = Some (orEmpty (options (questions d ! i))) \<and>
          correctCheckbox (questions d' ! i) =
            Some (map (flagAt (orEmpty (correctCheckbox (questions d ! i))))
                    [0..<length (orEmpty (options (questions d ! i)))])))"
proof (intro conjI)
  show "\<exists>d'. performAll d [SelectType i checkbox, SelectType i input, SelectType i checkbox] = Some d' \<and>
       title d' = title d \<and>
       questions d' = (questions d)[i := (questions d ! i)
          \<lparr>type := checkbox, options := Some [js ''''], correctCheckbox := Some [False],
           correctBoolean := None, correctInput := None\<rparr>]"
    using assms by (simp add: selectType_Some three_switches_question)
next
  show "\<exists>d'. selectType d i newType = Some d' \<and>
       text' (questions d' ! i) = text' (questions d ! i) \<and>
       (newType = checkbox \<and> orEmpty (options (questions d ! i)) \<noteq> [] \<longrightarrow>
          options (questions d' ! i) = Some (orEmpty (options (questions d ! i))) \<and>
          correctCheckbox (questions d' ! i) =
            Some (map (flagAt (orEmpty (correctCheckbox (questions d ! i))))
                    [0..<length (orEmpty (options (questions d ! i)))]))"
    using assms
    by (simp add: selectType_Some handleTypeChange_question_text
        selectType_checkbox_question)
qed

theorem type_switches_reset_options_witness:
  "(\<exists>d'. performAll
     \<lparr>title = js ''T'',
      questions =
        [\<lparr>text' = js ''Q'', type = input, options = Some [js ''Red'', js ''Green''],
          correctBoolean = None, correctInput = None, correctCheckbox = Some [True]\<rparr>]\<rparr>
     [SelectType 0 checkbox, SelectType 0 input, SelectType 0 checkbox] = Some d' \<and>
     text' (questions d' ! 0) = js ''Q'' \<and>
     options (questions d' ! 0) = Some [js ''''] \<and>
     correctCheckbox (questions d' ! 0) = Some [False]) \<and>
   (\<exists>d'. selectType
     \<lparr>title = js ''T'',
      questions =
        [\<lparr>text' = js ''Q'', type = input, options = Some [js ''Red'', js ''Green''],
          correctBoolean = None, correctInput = None, correctCheckbox = Some [True]\<rparr>]\<rparr>
     0 checkbox = Some d' \<and>
     text' (questions d' ! 0) = js ''Q'' \<and>
     options (questions d' ! 0) = Some [js ''Red'', js ''Green''] \<and>
     correctCheckbox (questions d' ! 0) = Some [True, False])"
  (is "(\<exists>d'. performAll ?d _ = Some d' \<and> _) \<and> _")
proof -
  have i: "0 < length (questions ?d)" by simp
  from type_switches_reset_options [OF i, of checkbox] show ?thesis
    by (auto simp: orEmpty_def flagAt_def)
qed

lemma removeQuestion_length:
  "removeQuestion form index = Some form' \<Longrightarrow> 1 \<le> length (questions form) \<Longrightarrow>
   1 \<le> length (questions form')"
  by (auto simp: removeQuestion_def split: if_splits)

lemma perform_keeps_a_question:
  assumes "perform form a = Some form'" and "1 \<le> length (questions form)"
  shows "1 \<le> length (questions form')"
proof (cases a)
  case AddQuestion
  then show ?thesis using assms by (auto simp: addQuestion_def)
next
  case (RemoveQuestion index)
  then show ?thesis using assms removeQuestion_length [of form index form'] by simp
next
  case (SelectType i t)
  then show ?thesis using assms
    by (auto simp: selectType_def handleTypeChange_def split: option.splits dest!: atQuestion_length)
next
  case (AddOption i)
  then show ?thesis using assms atQuestion_length [of form i _ form'] by (simp add: addOption_def)
next
  case (RemoveOption i k)
  then show ?thesis using assms atQuestion_length [of form i _ form'] by (simp add: removeOption_def)
next
  case (EditTitle s)
  then show ?thesis using assms by auto
next
  case (EditQuestion i f)
  then show ?thesis using assms atQuestion_length [of form i f form'] by simp
qed

lemma performAll_keeps_a_question:
  "performAll form actions = Some form' \<Longrightarrow> 1 \<le> length (questions form) \<Longrightarrow>
   1 \<le> length (questions form')"
proof (induction actions arbitrary: form)
  case Nil
  then show ?case by simp
next
  case (Cons a actions)
  from Cons.prems(1) obtain form1 where 1: "perform form a = Some form1"
    and 2: "performAll form1 actions = Some form'"
    by (auto split: option.splits)
  from perform_keeps_a_question [OF 1 Cons.prems(2)] have "1 \<le> length (questions form1)" .
  with Cons.IH [OF 2] show ?case .
qed

text \<open>
  C8. The Remove button of a question removes that question when the draft has more than
  one, and changes nothing when the draft has exactly one. Every draft reached from the
  initial form by the page's actions has at least one question.
\<close>

theorem remove_question_keeps_one:
  "(index < length (questions d) \<and> 1 < length (questions d) \<longrightarrow>
      (\<exists>d'. removeQuestion d index = Some d' \<and> title d' = title d \<and>
         questions d' = take index (questions d) @ drop (Suc index) (questions d) \<and>
         length (questions d') = length (questions d) - 1)) \<and>
   (index < length (questions d) \<and> length (questions d) = 1 \<longrightarrow>
      removeQuestion d index = Some d) \<and>
   (performAll defaultValues actions = Some d' \<longrightarrow> 1 \<le> length (questions d'))"
proof (intro conjI impI)
  assume "index < length (questions d) \<and> 1 < length (questions d)"
  then show "\<exists>d'. removeQuestion d index = Some d' \<and> title d' = title d \<and>
         questions d' = take index (questions d) @ drop (Suc index) (questions d) \<and>
         length (questions d') = length (questions d) - 1"
    by (auto simp: removeQuestion_def)
next
  assume "index < length (questions d) \<and> length (questions d) = 1"
  then show "removeQuestion d index = Some d" by (simp add: removeQuestion_def)
next
  assume "performAll defaultValues actions = Some d'"
  then show "1 \<le> length (questions d')"
    by (rule performAll_keeps_a_question) (simp add: defaultValues_def)
qed

theorem remove_question_keeps_one_witness:
  "removeQuestion defaultValues 0 = Some defaultValues \<and>
   (\<exists>d'. removeQuestion (addQuestion defaultValues) 0 = Some d' \<and>
      questions d' = [defaultQuestion]) \<and>
   (\<exists>d'. performAll defaultValues
       [AddQuestion, SelectType 1 checkbox, RemoveQuestion 0, RemoveQuestion 0] = Some d' \<and>
      1 \<le> length (questions d'))"
proof -
  have a: "0 < length (questions defaultValues) \<and> length (questions defaultValues) = 1"
    by (simp add: defaultValues_def)
  have b: "0 < length (questions (addQuestion defaultValues)) \<and>
      1 < length (questions (addQuestion defaultValues))"
    by (simp add: defaultValues_def addQuestion_def)
  have c: "performAll defaultValues
       [AddQuestion, SelectType 1 checkbox, RemoveQuestion 0, RemoveQuestion 0] =
     Some \<lparr>title = js '''', questions = [\<lparr>text' = js '''', type = checkbox,
       options = Some [js ''''], correctBoolean = None, correctInput = None,
       correctCheckbox = Some [False]\<rparr>]\<rparr>"
    by code_simp
  from remove_question_keeps_one [of 0 defaultValues "[]" defaultValues] a
  have 1: "removeQuestion defaultValues 0 = Some defaultValues" by simp
  from remove_question_keeps_one [of 0 "addQuestion defaultValues" "[]" defaultValues] b
  have 2: "\<exists>d'. removeQuestion (addQuestion defaultValues) 0 = Some d' \<and>
      questions d' = [defaultQuestion]"
    by (auto simp: defaultValues_def addQuestion_def)
  from remove_question_keeps_one [of 0 defaultValues
      "[AddQuestion, SelectType 1 checkbox, RemoveQuestion 0, RemoveQuestion 0]"] c
  have 3: "\<exists>d'. performAll defaultValues
       [AddQuestion, SelectType 1 checkbox, RemoveQuestion 0, RemoveQuestion 0] = Some d' \<and>
      1 \<le> length (questions d')"
    by simp
  from 1 2 3 show ?thesis by (intro conjI)
qed

section \<open>Claim on the API helpers\<close>

text \<open>
  C9, as stated, says that each operation fails exactly when the response is not a
  success, and returns the parsed body of a success response. A helper also fails when
  the body of a success response does not parse, since it returns \<open>res.json()\<close>
  unguarded, and when \<open>fetch\<close> itself rejects and there is no response. Below,
  \<open>getQuizzes\<close> fails on a success response whose body does not parse, and on a rejected
  \<open>fetch\<close>.
\<close>

theorem api_helper_fails_on_success_counterexample:
  "ok \<lparr>ok = True, json = None :: nat option\<rparr> \<and>
   fails (getQuizzes (\<lambda>request :: (nat, unit) request.
      Resolves \<lparr>ok = True, json = None :: nat option\<rparr>)) \<and>
   getQuizzes (\<lambda>request :: (nat, unit) request.
      Resolves \<lparr>ok = True, json = None :: nat option\<rparr>) = Inl JsonRejected \<and>
   getQuizzes (\<lambda>request :: (nat, unit) request. Rejects :: nat fetched) = Inl FetchRejected"
  by (simp add: getQuizzes_def res_json_def)

text \<open>
  C9, amended. Each of the four operations fails with its own \<open>Error\<close> ("Failed to ...")
  exactly when \<open>fetch\<close> resolves to a response that is not a success. The three reading
  operations return a value exactly when \<open>fetch\<close> resolves to a success response whose
  body parses, and the value is the parsed body; \<open>deleteQuiz\<close> returns, with no value,
  exactly when \<open>fetch\<close> resolves to a success response. Otherwise an operation fails
  with the rejection it met: that of \<open>fetch\<close> exactly when \<open>fetch\<close> rejects, that of
  \<open>res.json()\<close> exactly when the body of a success response does not parse.
\<close>

theorem api_helpers_outcomes:
  "(getQuizzes fetch = Inl (Error ''Failed to fetch quizzes'') \<longleftrightarrow>
      (\<exists>r. fetch GET_quizzes = Resolves r \<and> \<not> ok r)) \<and>
   (getQuizzes fetch = Inr v \<longleftrightarrow>
      (\<exists>r. fetch GET_quizzes = Resolves r \<and> ok r \<and> json r = Some v)) \<and>
   (getQuizzes fetch = Inl FetchRejected \<longleftrightarrow> fetch GET_quizzes = Rejects) \<and>
   (getQuizzes fetch = Inl JsonRejected \<longleftrightarrow>
      (\<exists>r. fetch GET_quizzes = Resolves r \<and> ok r \<and> json r = None)) \<and>
   (getQuiz fetch i = Inl (Error ''Failed to fetch quiz'') \<longleftrightarrow>
      (\<exists>r. fetch (GET_quiz i) = Resolves r \<and> \<not> ok r)) \<and>
   (getQuiz fetch i = Inr v \<longleftrightarrow>
      (\<exists>r. fetch (GET_quiz i) = Resolves r \<and> ok r \<and> json r = Some v)) \<and>
   (getQuiz fetch i = Inl FetchRejected \<longleftrightarrow> fetch (GET_quiz i) = Rejects) \<and>
   (getQuiz fetch i = Inl JsonRejected \<longleftrightarrow>
      (\<exists>r. fetch (GET_quiz i) = Resolves r \<and> ok r \<and> json r = None)) \<and>
   (createQuiz fetch p = Inl (Error ''Failed to create quiz'') \<longleftrightarrow>
      (\<exists>r. fetch (POST_quizzes p) = Resolves r \<and> \<not> ok r)) \<and>
   (createQuiz fetch p = Inr v \<longleftrightarrow>
      (\<exists>r. fetch (POST_quizzes p) = Resolves r \<and> ok r \<and> json r = Some v)) \<and>
   (createQuiz fetch p = Inl FetchRejected \<longleftrightarrow> fetch (POST_quizzes p) = Rejects) \<and>
   (createQuiz fetch p = Inl JsonRejected \<longleftrightarrow>
      (\<exists>r. fetch (POST_quizzes p) = Resolves r \<and> ok r \<and> json r = None)) \<and>
   (deleteQuiz fetch i = Inl (Error ''Failed to delete quiz'') \<longleftrightarrow>
      (\<exists>r. fetch (DELETE_quiz i) = Resolves r \<and> \<not> ok r)) \<and>
   (deleteQuiz fetch i = Inr () \<longleftrightarrow> (\<exists>r. fetch (DELETE_quiz i) = Resolves r \<and> ok r)) \<and>
   (deleteQuiz fetch i = Inl FetchRejected \<longleftrightarrow> fetch (DELETE_quiz i) = Rejects) \<and>
   (fails (getQuizzes fetch) \<or> (\<exists>v. getQuizzes fetch = Inr v)) \<and>
   (fails (getQuiz fetch i) \<or> (\<exists>v. getQuiz fetch i = Inr v)) \<and>
   (fails (createQuiz fetch p) \<or> (\<exists>v. createQuiz fetch p = Inr v)) \<and>
   (fails (deleteQuiz fetch i) \<or> deleteQuiz fetch i = Inr ())"
proof -
  have gs: "getQuizzes fetch = Inl (Error ''Failed to fetch quizzes'') \<longleftrightarrow>
      (\<exists>r. fetch GET_quizzes = Resolves r \<and> \<not> ok r)"
    "getQuizzes fetch = Inr v \<longleftrightarrow>
      (\<exists>r. fetch GET_quizzes = Resolves r \<and> ok r \<and> json r = Some v)"
    "getQuizzes fetch = Inl FetchRejected \<longleftrightarrow> fetch GET_quizzes = Rejects"
    "getQuizzes fetch = Inl JsonRejected \<longleftrightarrow>
      (\<exists>r. fetch GET_quizzes = Resolves r \<and> ok r \<and> json r = None)"
    "fails (getQuizzes fetch) \<or> (\<exists>v. getQuizzes fetch = Inr v)"
    by (auto simp: getQuizzes_def res_json_def split: fetched.splits option.splits)
  have g: "getQuiz fetch i = Inl (Error ''Failed to fetch quiz'') \<longleftrightarrow>
      (\<exists>r. fetch (GET_quiz i) = Resolves r \<and> \<not> ok r)"
    "getQuiz fetch i = Inr v \<longleftrightarrow>
      (\<exists>r. fetch (GET_quiz i) = Resolves r \<and> ok r \<and> json r = Some v)"
    "getQuiz fetch i = Inl FetchRejected \<longleftrightarrow> fetch (GET_quiz i) = Rejects"
    "getQuiz fetch i = Inl JsonRejected \<longleftrightarrow>
      (\<exists>r. fetch (GET_quiz i) = Resolves r \<and> ok r \<and> json r = None)"
    "fails (getQuiz fetch i) \<or> (\<exists>v. getQuiz fetch i = Inr v)"
    by (auto simp: getQuiz_def res_json_def split: fetched.splits option.splits)
  have c: "createQuiz fetch p = Inl (Error ''Failed to create quiz'') \<longleftrightarrow>
      (\<exists>r. fetch (POST_quizzes p) = Resolves r \<and> \<not> ok r)"
    "createQuiz fetch p = Inr v \<longleftrightarrow>
      (\<exists>r. fetch (POST_quizzes p) = Resolves r \<and> ok r \<and> json r = Some v)"
    "createQuiz fetch p = Inl FetchRejected \<longleftrightarrow> fetch (POST_quizzes p) = Rejects"
    "createQuiz fetch p = Inl JsonRejected \<longleftrightarrow>
      (\<exists>r. fetch (POST_quizzes p) = Resolves r \<and> ok r \<and> json r = None)"
    "fails (createQuiz fetch p) \<or> (\<exists>v. createQuiz fetch p = Inr v)"
    by (auto simp: createQuiz_def res_json_def split: fetched.splits option.splits)
  have d: "deleteQuiz fetch i = Inl (Error ''Failed to delete quiz'') \<longleftrightarrow>
      (\<exists>r. fetch (DELETE_quiz i) = Resolves r \<and> \<not> ok r)"
    "deleteQuiz fetch i = Inr () \<longleftrightarrow> (\<exists>r. fetch (DELETE_quiz i) = Resolves r \<and> ok r)"
    "deleteQuiz fetch i = Inl FetchRejected \<longleftrightarrow> fetch (DELETE_quiz i) = Rejects"
    "fails (deleteQuiz fetch i) \<or> deleteQuiz fetch i = Inr ()"
    by (auto simp: deleteQuiz_def split: fetched.splits)
  from gs g c d show ?thesis by (intro conjI)
qed

theorem api_helpers_outcomes_witness:
  "getQuizzes (\<lambda>request :: (nat, unit) request.
      Resolves \<lparr>ok = True, json = Some (7::nat)\<rparr>) = Inr 7 \<and>
   deleteQuiz (\<lambda>request :: (nat, unit) request.
      Resolves \<lparr>ok = True, json = Some (7::nat)\<rparr>) 3 = Inr () \<and>
   getQuiz (\<lambda>request :: (nat, unit) request.
      Resolves \<lparr>ok = False, json = Some (7::nat)\<rparr>) 3 = Inl (Error ''Failed to fetch quiz'') \<and>
   createQuiz (\<lambda>request :: (nat, unit) request.
      Resolves \<lparr>ok = True, json = None :: nat option\<rparr>) () = Inl JsonRejected \<and>
   deleteQuiz (\<lambda>request :: (nat, unit) request. Rejects :: nat fetched) 3 = Inl FetchRejected"
  using
    api_helpers_outcomes
      [of "\<lambda>request :: (nat, unit) request. Resolves \<lparr>ok = True, json = Some (7::nat)\<rparr>" 7 3 "()"]
    api_helpers_outcomes
      [of "\<lambda>request :: (nat, unit) request. Resolves \<lparr>ok = False, json = Some (7::nat)\<rparr>" 7 3 "()"]
    api_helpers_outcomes
      [of "\<lambda>request :: (nat, unit) request. Resolves \<lparr>ok = True, json = None :: nat option\<rparr>" 7 3 "()"]
    api_helpers_outcomes
      [of "\<lambda>request :: (nat, unit) request. Rejects :: nat fetched" 7 3 "()"]
  by simp

end
